theory Spec2Isabelle
  imports Complex_Main "HOL-Library.Stream"
begin

section \<open>Tiles-R-Us showroom: pricing calculator, parish matching, order ledger\<close>

text \<open>
  A shallow embedding of the pricing, distance and ordering logic of the showroom
  application (the \<^verbatim>\<open>App\<close> component and its helpers).

  Conventions of the model.
  \<^item> A JavaScript number is a \<open>jsnum\<close>: \<open>NaN\<close>, the two infinities, or a finite value
    carried as an exact real. IEEE-754 rounding, overflow and the sign of zero are not
    modelled; every test the code makes on numbers (\<^verbatim>\<open>isNaN\<close>, comparisons,
    truthiness) is.
  \<^item> A JavaScript string is a \<open>string\<close> of ASCII characters.
  \<^item> \<^verbatim>\<open>null\<close> and \<^verbatim>\<open>undefined\<close> are \<open>None\<close>.
  \<^item> React state is one record, passed in and returned updated; \<^verbatim>\<open>alert\<close> appends to
    a log in that record. State that none of the modelled handlers reads or writes (the
    scene, the login form, the lighting controls, the displayed delivery cost that an
    effect keeps in step with \<open>computeDeliveryCost\<close>) is left out.
  \<^item> The clock and \<^verbatim>\<open>Math.random\<close> are inputs.
\<close>

section \<open>JavaScript numbers\<close>

text \<open>
  The operators the code applies to numbers: \<open>isNaN\<close>, truthiness (what \<^verbatim>\<open>!x\<close> and
  \<^verbatim>\<open>x || y\<close> test), \<open>jlt\<close> and \<open>jle\<close> for \<^verbatim>\<open><\<close> and \<^verbatim>\<open><=\<close> (false whenever an
  operand is \<open>NaN\<close>), \<open>jadd\<close>, \<open>jsub\<close>, \<open>jmul\<close>, \<open>jdiv\<close> for the four arithmetic
  operators, \<open>ceil\<close> for \<^verbatim>\<open>Math.ceil\<close> and \<open>jmax\<close> for \<^verbatim>\<open>Math.max\<close>. Undefined forms
  (\<open>\<infinity> - \<infinity>\<close>, \<open>0 * \<infinity>\<close>, \<open>0 / 0\<close>, \<open>\<infinity> / \<infinity>\<close>) give \<open>NaN\<close>; a division by zero takes
  the zero as positive.
\<close>

datatype jsnum = NaN | Fin real | PInf | NInf

fun isNaN :: "jsnum \<Rightarrow> bool" where
  "isNaN NaN = True"
| "isNaN _ = False"

fun truthy :: "jsnum \<Rightarrow> bool" where
  "truthy NaN = False"
| "truthy (Fin a) = (a \<noteq> 0)"
| "truthy _ = True"

fun jneg :: "jsnum \<Rightarrow> jsnum" where
  "jneg NaN = NaN"
| "jneg (Fin a) = Fin (- a)"
| "jneg PInf = NInf"
| "jneg NInf = PInf"

fun jlt :: "jsnum \<Rightarrow> jsnum \<Rightarrow> bool" where
  "jlt NaN _ = False"
| "jlt _ NaN = False"
| "jlt (Fin a) (Fin b) = (a < b)"
| "jlt NInf NInf = False"
| "jlt NInf _ = True"
| "jlt _ NInf = False"
| "jlt PInf _ = False"
| "jlt _ PInf = True"

fun jle :: "jsnum \<Rightarrow> jsnum \<Rightarrow> bool" where
  "jle NaN _ = False"
| "jle _ NaN = False"
| "jle (Fin a) (Fin b) = (a \<le> b)"
| "jle NInf _ = True"
| "jle _ PInf = True"
| "jle _ _ = False"

fun jadd :: "jsnum \<Rightarrow> jsnum \<Rightarrow> jsnum" where
  "jadd NaN _ = NaN"
| "jadd _ NaN = NaN"
| "jadd (Fin a) (Fin b) = Fin (a + b)"
| "jadd PInf NInf = NaN"
| "jadd NInf PInf = NaN"
| "jadd PInf _ = PInf"
| "jadd _ PInf = PInf"
| "jadd NInf _ = NInf"
| "jadd _ NInf = NInf"

definition jsub :: "jsnum \<Rightarrow> jsnum \<Rightarrow> jsnum" where
  "jsub a b = jadd a (jneg b)"

fun jmul :: "jsnum \<Rightarrow> jsnum \<Rightarrow> jsnum" where
  "jmul NaN _ = NaN"
| "jmul _ NaN = NaN"
| "jmul (Fin a) (Fin b) = Fin (a * b)"
| "jmul (Fin a) PInf = (if a = 0 then NaN else if 0 < a then PInf else NInf)"
| "jmul (Fin a) NInf = (if a = 0 then NaN else if 0 < a then NInf else PInf)"
| "jmul PInf (Fin b) = (if b = 0 then NaN else if 0 < b then PInf else NInf)"
| "jmul NInf (Fin b) = (if b = 0 then NaN else if 0 < b then NInf else PInf)"
| "jmul PInf PInf = PInf"
| "jmul NInf NInf = PInf"
| "jmul PInf NInf = NInf"
| "jmul NInf PInf = NInf"

fun jdiv :: "jsnum \<Rightarrow> jsnum \<Rightarrow> jsnum" where
  "jdiv NaN _ = NaN"
| "jdiv _ NaN = NaN"
| "jdiv (Fin a) (Fin b) =
     (if b = 0 then (if a = 0 then NaN else if 0 < a then PInf else NInf) else Fin (a / b))"
| "jdiv (Fin a) _ = Fin 0"
| "jdiv PInf (Fin b) = (if 0 \<le> b then PInf else NInf)"
| "jdiv NInf (Fin b) = (if 0 \<le> b then NInf else PInf)"
| "jdiv _ _ = NaN"

fun ceil :: "jsnum \<Rightarrow> jsnum" where
  "ceil (Fin a) = Fin (of_int \<lceil>a\<rceil>)"
| "ceil x = x"

definition jmax :: "jsnum \<Rightarrow> jsnum \<Rightarrow> jsnum" where
  "jmax a b = (if isNaN a \<or> isNaN b then NaN else if jlt a b then b else a)"

section \<open>Strings and parseFloat\<close>

text \<open>
  \<^verbatim>\<open>parseFloat\<close> skips leading white space and reads the longest prefix that is a
  decimal literal: an optional sign, then either \<^verbatim>\<open>Infinity\<close> or digits with an optional
  fraction (at least one digit before or after the point) and an optional exponent.
  Whatever follows is ignored; without such a prefix the result is \<open>NaN\<close>.
\<close>

definition is_ws :: "char \<Rightarrow> bool" where
  "is_ws c = (c \<in> set [CHR 0x09, CHR 0x0A, CHR 0x0B, CHR 0x0C, CHR 0x0D, CHR 0x20])"

definition is_digit :: "char \<Rightarrow> bool" where
  "is_digit c = (48 \<le> (of_char c :: nat) \<and> (of_char c :: nat) \<le> 57)"

definition digit_val :: "char \<Rightarrow> nat" where
  "digit_val c = of_char c - 48"

definition digits_val :: "string \<Rightarrow> nat" where
  "digits_val ds = foldl (\<lambda>a c. 10 * a + digit_val c) 0 ds"

definition pow10 :: "int \<Rightarrow> real" where
  "pow10 e = (if 0 \<le> e then 10 ^ nat e else 1 / 10 ^ nat (- e))"

fun take_sign :: "string \<Rightarrow> bool \<times> string" where
  "take_sign (c # cs) =
     (if c = CHR ''-'' then (True, cs) else if c = CHR ''+'' then (False, cs) else (False, c # cs))"
| "take_sign [] = (False, [])"

definition starts_with :: "string \<Rightarrow> string \<Rightarrow> bool" where
  "starts_with s p = (take (length p) s = p)"

fun exponent_part :: "string \<Rightarrow> int" where
  "exponent_part (c # cs) =
     (if c = CHR ''e'' \<or> c = CHR ''E'' then
        (case take_sign cs of (neg, r) \<Rightarrow>
           let ds = takeWhile is_digit r in
           if ds = [] then 0
           else if neg then - int (digits_val ds) else int (digits_val ds))
      else 0)"
| "exponent_part [] = 0"

definition parseFloat :: "string \<Rightarrow> jsnum" where
  "parseFloat s =
     (case take_sign (dropWhile is_ws s) of (neg, r) \<Rightarrow>
        if starts_with r ''Infinity'' then (if neg then NInf else PInf)
        else
          let ip = takeWhile is_digit r;
              r1 = dropWhile is_digit r;
              fp = (if starts_with r1 ''.'' then takeWhile is_digit (tl r1) else []);
              r2 = (if starts_with r1 ''.'' then dropWhile is_digit (tl r1) else r1)
          in if ip = [] \<and> fp = [] then NaN
             else
               let m = (real (digits_val ip) + real (digits_val fp) / 10 ^ length fp)
                         * pow10 (exponent_part r2)
               in Fin (if neg then - m else m))"

section \<open>Unit conversion and delivery cost\<close>

definition convertToMeters :: "string \<Rightarrow> string \<Rightarrow> jsnum" where
  "convertToMeters val unit =
     (let v = parseFloat val in
      if isNaN v \<or> jle v (Fin 0) then Fin 0
      else if unit = ''ft'' then jmul v (Fin 0.3048)
      else if unit = ''in'' then jmul v (Fin 0.0254)
      else v)"

definition computeDeliveryCost :: "string \<Rightarrow> string \<Rightarrow> bool \<Rightarrow> jsnum" where
  "computeDeliveryCost method milesInput newParish =
     (if method \<noteq> ''delivery'' then Fin 0
      else
        let miles = parseFloat milesInput in
        if newParish then
          (let insideMiles = (if isNaN miles \<or> jlt miles (Fin 0) then Fin 0 else miles)
           in jadd (Fin 3500) (jmul insideMiles (Fin 450)))
        else
          if isNaN miles \<or> jle miles (Fin 0) then Fin 0
          else if jle miles (Fin 5) then Fin 1500
          else jadd (Fin 1500) (jmul (jsub miles (Fin 5)) (Fin 250)))"


section \<open>String helpers of the platform\<close>

text \<open>Case mapping, on the ASCII letters.\<close>

definition toLowerChar :: "char \<Rightarrow> char" where
  "toLowerChar c =
     (case map_of (zip ''ABCDEFGHIJKLMNOPQRSTUVWXYZ'' ''abcdefghijklmnopqrstuvwxyz'') c of
        Some l \<Rightarrow> l
      | None \<Rightarrow> c)"

definition toUpperChar :: "char \<Rightarrow> char" where
  "toUpperChar c =
     (case map_of (zip ''abcdefghijklmnopqrstuvwxyz'' ''ABCDEFGHIJKLMNOPQRSTUVWXYZ'') c of
        Some u \<Rightarrow> u
      | None \<Rightarrow> c)"

definition toLowerCase :: "string \<Rightarrow> string" where
  "toLowerCase s = map toLowerChar s"

definition toUpperCase :: "string \<Rightarrow> string" where
  "toUpperCase s = map toUpperChar s"

definition trim :: "string \<Rightarrow> string" where
  "trim s = rev (dropWhile is_ws (rev (dropWhile is_ws s)))"

fun includes_str :: "string \<Rightarrow> string \<Rightarrow> bool" where
  "includes_str [] t = (t = [])"
| "includes_str (c # cs) t = (starts_with (c # cs) t \<or> includes_str cs t)"

text \<open>\<^verbatim>\<open>s.replace(/parish/gi, "")\<close>: every match of the pattern, found left to right and
  without regard to case, is deleted; the scan resumes after the deleted text.\<close>

function remove_parish :: "string \<Rightarrow> string" where
  "remove_parish [] = []"
| "remove_parish (c # cs) =
     (if toLowerCase (take 6 (c # cs)) = ''parish'' then remove_parish (drop 6 (c # cs))
      else c # remove_parish cs)"
  by pat_completeness auto
termination
  by (relation "measure length") auto

text \<open>\<^verbatim>\<open>s.replace(/^st[.\s]/i, "Saint ")\<close>: only a match at the very start is replaced,
  and the match is exactly three characters long.\<close>

definition expand_st :: "string \<Rightarrow> string" where
  "expand_st s =
     (if 3 \<le> length s \<and> toLowerCase (take 2 s) = ''st'' \<and> (s ! 2 = CHR ''.'' \<or> is_ws (s ! 2))
      then ''Saint '' @ drop 3 s else s)"

section \<open>Parish matching\<close>

definition JAMAICA_PARISHES :: "string list" where
  "JAMAICA_PARISHES =
     [''Kingston'', ''Saint Andrew'', ''Saint Thomas'', ''Portland'', ''Saint Mary'',
      ''Saint Ann'', ''Trelawny'', ''Saint James'', ''Hanover'', ''Westmoreland'',
      ''Saint Elizabeth'', ''Manchester'', ''Clarendon'', ''Saint Catherine'']"

definition normalizeParish :: "string \<Rightarrow> string" where
  "normalizeParish name =
     (if name = [] then []
      else toLowerCase (trim (expand_st (remove_parish name))))"

text \<open>The argument is \<open>None\<close> for \<^verbatim>\<open>null\<close> or \<^verbatim>\<open>undefined\<close>. Every entry of the parish
  list is a non-empty string, so \<^verbatim>\<open>found || null\<close> only turns the \<^verbatim>\<open>undefined\<close> of an
  unsuccessful \<^verbatim>\<open>find\<close> into \<^verbatim>\<open>null\<close>.\<close>

definition matchParishName :: "string option \<Rightarrow> string option" where
  "matchParishName anyString =
     (case anyString of
        None \<Rightarrow> None
      | Some a \<Rightarrow>
          if a = [] then None
          else
            let s = normalizeParish a
            in find (\<lambda>p. normalizeParish p = s \<or> includes_str s (normalizeParish p)) JAMAICA_PARISHES)"


section \<open>Application data\<close>

record store =
  id_store :: string
  name :: string
  lat :: real
  lon :: real
  parish :: string

record auto_rec =
  totalMilesEstimate :: jsnum
  detectedParish :: string
  roadFactor :: jsnum

record delivery_rec =
  method_delivery :: string
  isNewParish :: bool
  miles :: jsnum
  cost :: jsnum
  store :: store
  auto :: auto_rec

record calc_result =
  tilesNeeded :: jsnum
  totalCost :: jsnum
  roomAreaM2 :: jsnum
  roomAreaSqFt :: jsnum
  thinsetBags :: jsnum
  thinsetBagCoverageSqFt :: jsnum
  thinsetBagPrice :: jsnum
  thinsetCost :: jsnum
  delivery :: delivery_rec
  grandTotal :: jsnum

record sales_rep =
  id_rep :: jsnum
  name :: string
  username :: string
  password :: string
  employeeId :: string

record customer_rec =
  name :: string
  phone :: string
  email :: string
  address :: string
  notes_customer :: string

record dimensions =
  length_dim :: string
  width_dim :: string
  unit_dim :: string

record thinset_rec =
  bags :: jsnum
  bagPrice :: jsnum
  cost :: jsnum

record order =
  orderId :: string
  ticketNumber :: string
  salesRep :: string
  employeeId :: string
  customer :: customer_rec
  tile :: string
  wallTile :: string
  tileDimensions :: dimensions
  tilePrice :: string
  roomDimensions :: dimensions
  tilesNeeded :: jsnum
  totalCost :: jsnum
  thinset :: thinset_rec
  delivery :: delivery_rec
  grandTotal :: jsnum
  createdAt :: string

datatype alert = Message string | OrderCreated order

text \<open>
  The state of the \<^verbatim>\<open>App\<close> component that the handlers below read or write, together
  with the two pieces of the browser they touch: the \<^verbatim>\<open>"orders"\<close> entry of local storage
  and the log of \<^verbatim>\<open>alert\<close> calls. \<open>localStorage_orders = Some os\<close> stands for the entry
  holding the blob \<^verbatim>\<open>JSON.stringify(os)\<close>, \<open>None\<close> for an absent entry; storage writes
  are taken to succeed.
\<close>

record app_state =
  loggedInUser :: "sales_rep option"
  orders :: "order list"
  tile :: string
  wallTile :: string
  tileLength :: string
  tileWidth :: string
  tileUnit :: string
  tilePrice :: string
  roomLength :: string
  roomWidth :: string
  roomUnit :: string
  result :: "calc_result option"
  deliveryMethod :: string
  deliveryMiles :: string
  isNewParish :: bool
  selectedStoreId :: string
  autoTotalMiles :: jsnum
  detectedParish :: string
  roadFactor :: jsnum
  customerName :: string
  customerPhone :: string
  customerEmail :: string
  customerAddress :: string
  customerNotes :: string
  localStorage_orders :: "order list option"
  alerts :: "alert list"

definition STORES :: "store list" where
  "STORES =
     [\<lparr>id_store = ''KNG'', name = ''Kingston (HWT)'', lat = 18.0179, lon = - 76.7936, parish = ''Saint Andrew''\<rparr>,
      \<lparr>id_store = ''MBJ'', name = ''Montego Bay'', lat = 18.4667, lon = - 77.9167, parish = ''Saint James''\<rparr>,
      \<lparr>id_store = ''MAN'', name = ''Mandeville'', lat = 18.0425, lon = - 77.5075, parish = ''Manchester''\<rparr>,
      \<lparr>id_store = ''OCH'', name = ''Ocho Rios'', lat = 18.4075, lon = - 77.1031, parish = ''Saint Ann''\<rparr>,
      \<lparr>id_store = ''SPN'', name = ''Spanish Town'', lat = 17.9970, lon = - 76.9570, parish = ''Saint Catherine''\<rparr>]"

definition selectedStore :: "app_state \<Rightarrow> store" where
  "selectedStore st =
     (case find (\<lambda>s. id_store s = selectedStoreId st) STORES of
        Some s \<Rightarrow> s
      | None \<Rightarrow> hd STORES)"

definition alert :: "alert \<Rightarrow> app_state \<Rightarrow> app_state" where
  "alert a st = st\<lparr>alerts := alerts st @ [a]\<rparr>"

section \<open>Pricing calculator\<close>

definition handleCalculate :: "app_state \<Rightarrow> app_state" where
  "handleCalculate st =
     (let tLength = convertToMeters (tileLength st) (tileUnit st);
          tWidth = convertToMeters (tileWidth st) (tileUnit st);
          rLength = convertToMeters (roomLength st) (roomUnit st);
          rWidth = convertToMeters (roomWidth st) (roomUnit st);
          price = parseFloat (app_state.tilePrice st)
      in
      if \<not> truthy tLength \<or> \<not> truthy tWidth \<or> \<not> truthy rLength \<or> \<not> truthy rWidth \<or> \<not> truthy price
      then alert (Message ''Please enter all values correctly'') st
      else
        let tileArea = jmul tLength tWidth;
            roomArea = jmul rLength rWidth;
            tilesNeeded = ceil (jdiv roomArea tileArea);
            tileTotalCost = jmul tilesNeeded price;
            roomAreaSqFt = jmul roomArea (Fin 10.7639);
            THINSET_BAG_COVERAGE_SQFT = Fin 50;
            THINSET_BAG_PRICE = Fin 1500;
            thinsetBags = jmax (Fin 0) (ceil (jdiv roomAreaSqFt THINSET_BAG_COVERAGE_SQFT));
            thinsetCost = jmul thinsetBags THINSET_BAG_PRICE;
            deliveryCostNow =
              computeDeliveryCost (deliveryMethod st) (deliveryMiles st) (app_state.isNewParish st);
            grandTotal = jadd (jadd tileTotalCost thinsetCost) deliveryCostNow
        in
        st\<lparr>result := Some
          \<lparr>calc_result.tilesNeeded = tilesNeeded,
           totalCost = tileTotalCost,
           roomAreaM2 = roomArea,
           roomAreaSqFt = roomAreaSqFt,
           thinsetBags = thinsetBags,
           thinsetBagCoverageSqFt = THINSET_BAG_COVERAGE_SQFT,
           thinsetBagPrice = THINSET_BAG_PRICE,
           thinsetCost = thinsetCost,
           delivery =
             \<lparr>method_delivery = deliveryMethod st,
              isNewParish = app_state.isNewParish st,
              miles = (let m = parseFloat (deliveryMiles st) in if truthy m then m else Fin 0),
              cost = deliveryCostNow,
              store = selectedStore st,
              auto =
                \<lparr>totalMilesEstimate =
                   (if truthy (autoTotalMiles st) then autoTotalMiles st else Fin 0),
                 detectedParish = app_state.detectedParish st,
                 roadFactor = app_state.roadFactor st\<rparr>\<rparr>,
           grandTotal = grandTotal\<rparr>\<rparr>)"

section \<open>Auto-distance\<close>



definition digit_char :: "nat \<Rightarrow> char" where
  "digit_char d = ''0123456789'' ! d"

function show_nat :: "nat \<Rightarrow> string" where
  "show_nat n = (if n < 10 then [digit_char n] else show_nat (n div 10) @ [digit_char (n mod 10)])"
  by pat_completeness auto
termination
  by (relation "measure (\<lambda>n. n)") auto

text \<open>
  \<^verbatim>\<open>String(x)\<close> for the numbers this program renders: \<open>NaN\<close>, the infinities, and finite
  values with at most one fractional digit (results of \<open>toFixed1\<close>, or the constant 1).
  \<open>String_tenths n\<close> renders \<open>n / 10\<close>: plain decimal notation below \<open>10\<^sup>2\<^sup>1\<close>, and
  from there on the shortest digit string followed by the exponent. A finite value with
  further fractional digits never reaches \<open>String_num\<close> here; they would be cut.
\<close>

definition String_tenths :: "int \<Rightarrow> string" where
  "String_tenths n =
     (let a = \<bar>n\<bar>;
          sgn = (if n < 0 then ''-'' else [])
      in
      if a < 10 ^ 22 then
        sgn @ show_nat (nat (a div 10))
          @ (if a mod 10 = 0 then [] else ''.'' @ [digit_char (nat (a mod 10))])
      else
        let ds = show_nat (nat a);
            sig = rev (dropWhile (\<lambda>c. c = CHR ''0'') (rev ds))
        in sgn @ [hd sig] @ (if 1 < length sig then ''.'' @ tl sig else [])
             @ ''e+'' @ show_nat (length ds - 2))"

fun String_num :: "jsnum \<Rightarrow> string" where
  "String_num NaN = ''NaN''"
| "String_num PInf = ''Infinity''"
| "String_num NInf = ''-Infinity''"
| "String_num (Fin x) = String_tenths \<lfloor>x * 10\<rfloor>"


section \<open>Order ledger\<close>

text \<open>
  What the handlers take from the clock and from \<^verbatim>\<open>Math.random\<close>: the two readings of
  the clock as the strings the code turns them into, and the successive values of
  \<^verbatim>\<open>Math.random().toString(36)\<close> as a stream.
\<close>

record env =
  dateNow36 :: string
  dateISO :: string
  random36 :: "string stream"

definition generateOrderId :: "string \<Rightarrow> string stream \<Rightarrow> string \<times> string stream" where
  "generateOrderId timestamp rnd =
     (let randomPart = toUpperCase (take 5 (drop 2 (shd rnd)))
      in (''ORD-'' @ timestamp @ ''-'' @ randomPart, stl rnd))"

definition make_ticket :: "string \<Rightarrow> string \<Rightarrow> string" where
  "make_ticket r1 r2 =
     (let chunk1 = toUpperCase (take 4 (drop 2 r1));
          chunk2 = toUpperCase (take 4 (drop 2 r2))
      in ''TRU-'' @ chunk1 @ ''-'' @ chunk2)"

text \<open>The \<^verbatim>\<open>do ... while (existing.has(ticket))\<close> loop. It has no bound: \<open>None\<close> is the
  loop that never leaves.\<close>

partial_function (option) ticket_loop :: "string set \<Rightarrow> string stream \<Rightarrow> (string \<times> string stream) option" where
  "ticket_loop existing rnd =
     (let ticket = make_ticket (shd rnd) (shd (stl rnd))
      in if ticket \<in> existing then ticket_loop existing (stl (stl rnd))
         else Some (ticket, stl (stl rnd)))"

definition stored_orders :: "app_state \<Rightarrow> order list" where
  "stored_orders st = (case localStorage_orders st of None \<Rightarrow> [] | Some os \<Rightarrow> os)"

definition generateTicketNumber :: "app_state \<Rightarrow> string stream \<Rightarrow> (string \<times> string stream) option" where
  "generateTicketNumber st rnd =
     (let existing = set (map ticketNumber (stored_orders st))
      in ticket_loop existing rnd)"

text \<open>The order object that \<open>handlePlaceOrder\<close> builds, from the state, the stored result,
  the logged-in representative, the two generated identifiers and the clock. The result
  stored by \<open>handleCalculate\<close> always has every field, so the defaults of the
  destructuring pattern are never taken.\<close>

definition new_order ::
  "app_state \<Rightarrow> calc_result \<Rightarrow> sales_rep \<Rightarrow> string \<Rightarrow> string \<Rightarrow> string \<Rightarrow> order" where
  "new_order st res rep oid ticket created =
     \<lparr>orderId = oid,
      ticketNumber = ticket,
      salesRep = sales_rep.name rep,
      employeeId = sales_rep.employeeId rep,
      customer =
        \<lparr>customer_rec.name = trim (customerName st),
         phone = trim (customerPhone st),
         email = trim (customerEmail st),
         address = trim (customerAddress st),
         notes_customer = trim (customerNotes st)\<rparr>,
      tile = app_state.tile st,
      wallTile = app_state.wallTile st,
      tileDimensions =
        \<lparr>length_dim = tileLength st, width_dim = tileWidth st, unit_dim = tileUnit st\<rparr>,
      tilePrice = app_state.tilePrice st,
      roomDimensions =
        \<lparr>length_dim = roomLength st, width_dim = roomWidth st, unit_dim = roomUnit st\<rparr>,
      tilesNeeded = calc_result.tilesNeeded res,
      totalCost = calc_result.totalCost res,
      thinset =
        \<lparr>bags = thinsetBags res,
         bagPrice = thinsetBagPrice res,
         cost = thinsetCost res\<rparr>,
      delivery = calc_result.delivery res,
      grandTotal = calc_result.grandTotal res,
      createdAt = created\<rparr>"

text \<open>
  \<open>handlePlaceOrder\<close> returns the new state and the rest of the random stream, or \<open>None\<close>
  when the ticket loop never leaves.
\<close>

definition handlePlaceOrder :: "app_state \<Rightarrow> env \<Rightarrow> (app_state \<times> string stream) option" where
  "handlePlaceOrder st e =
     (case result st of
        None \<Rightarrow> Some (alert (Message ''Please calculate tiles and cost first.'') st, random36 e)
      | Some res \<Rightarrow>
       (case loggedInUser st of
          None \<Rightarrow> Some (alert (Message ''No sales rep logged in.'') st, random36 e)
        | Some rep \<Rightarrow>
          if trim (customerName st) = [] \<or> trim (customerPhone st) = []
          then Some (alert (Message ''Please enter customer name and phone number.'') st, random36 e)
          else if deliveryMethod st = ''delivery'' \<and> \<not> app_state.isNewParish st \<and>
                  (let miles = parseFloat (deliveryMiles st) in isNaN miles \<or> jle miles (Fin 0))
          then Some (alert (Message ''Please enter delivery miles (within parish).'') st, random36 e)
          else
            (case generateOrderId (dateNow36 e) (random36 e) of (oid, rnd1) \<Rightarrow>
             case generateTicketNumber st rnd1 of
               None \<Rightarrow> None
             | Some (ticket, rnd2) \<Rightarrow>
                 let order = new_order st res rep oid ticket (dateISO e);
                     updatedOrders = orders st @ [order]
                 in Some
                      (alert (OrderCreated order)
                         (st\<lparr>orders := updatedOrders,
                             localStorage_orders := Some updatedOrders,
                             customerName := [],
                             customerPhone := [],
                             customerEmail := [],
                             customerAddress := [],
                             customerNotes := []\<rparr>),
                       rnd2))))"

section \<open>Reference values for stating the properties\<close>

text \<open>The conversion factors to meters: 1 ft = 0.3048 m, 1 in = 0.0254 m, and anything
  else is taken as meters already.\<close>

definition meters_per_unit :: "string \<Rightarrow> real" where
  "meters_per_unit u = (if u = ''ft'' then 0.3048 else if u = ''in'' then 0.0254 else 1)"

text \<open>A session right after start-up, with a 0.3 m by 0.3 m tile at 100 a piece and a
  room of 4 m by 5 m entered into the calculator.\<close>

definition sample_state :: app_state where
  "sample_state =
     \<lparr>loggedInUser = None, orders = [], tile = ''Marble'', wallTile = ''Marble'',
      tileLength = ''0.3'', tileWidth = ''0.3'', tileUnit = ''m'', tilePrice = ''100'',
      roomLength = ''4'', roomWidth = ''5'', roomUnit = ''m'', result = None,
      deliveryMethod = ''pickup'', deliveryMiles = [], isNewParish = False,
      selectedStoreId = ''KNG'', autoTotalMiles = Fin 0, detectedParish = [],
      roadFactor = Fin 1.25, customerName = [], customerPhone = [], customerEmail = [],
      customerAddress = [], customerNotes = [], localStorage_orders = None, alerts = []\<rparr>"

text \<open>The same session with a tile price of \<^verbatim>\<open>-5\<close> typed into the price field.\<close>

definition negative_price_state :: app_state where
  "negative_price_state = sample_state\<lparr>app_state.tilePrice := ''-5''\<rparr>"

text \<open>The parish list, each entry with its normal form.\<close>

definition parish_table :: "(string \<times> string) list" where
  "parish_table =
     [(''Kingston'', ''kingston''), (''Saint Andrew'', ''saint andrew''),
      (''Saint Thomas'', ''saint thomas''), (''Portland'', ''portland''),
      (''Saint Mary'', ''saint mary''), (''Saint Ann'', ''saint ann''),
      (''Trelawny'', ''trelawny''), (''Saint James'', ''saint james''),
      (''Hanover'', ''hanover''), (''Westmoreland'', ''westmoreland''),
      (''Saint Elizabeth'', ''saint elizabeth''), (''Manchester'', ''manchester''),
      (''Clarendon'', ''clarendon''), (''Saint Catherine'', ''saint catherine'')]"

text \<open>The four guards of \<open>handlePlaceOrder\<close> all pass.\<close>

definition can_place :: "app_state \<Rightarrow> bool" where
  "can_place st =
     (result st \<noteq> None \<and> loggedInUser st \<noteq> None \<and>
      \<not> (trim (customerName st) = [] \<or> trim (customerPhone st) = []) \<and>
      \<not> (deliveryMethod st = ''delivery'' \<and> \<not> app_state.isNewParish st \<and>
         (let miles = parseFloat (deliveryMiles st) in isNaN miles \<or> jle miles (Fin 0))))"

text \<open>The tickets of the orders in local storage.\<close>

definition stored_tickets :: "app_state \<Rightarrow> string set" where
  "stored_tickets st = set (map ticketNumber (stored_orders st))"

text \<open>The \<open>n\<close>-th ticket the loop would try on a stream of random values.\<close>

definition nth_ticket :: "string stream \<Rightarrow> nat \<Rightarrow> string" where
  "nth_ticket rnd n = make_ticket (rnd !! (2 * n)) (rnd !! (2 * n + 1))"

text \<open>The default sales representative, a session ready to place its order, an order
  placed earlier, the session with that order in the ledger, and an environment whose
  random values first repeat the earlier ticket.\<close>

definition default_rep :: sales_rep where
  "default_rep =
     \<lparr>id_rep = Fin 1, name = ''Default Rep'', username = ''rep1'', password = ''1234'',
      employeeId = ''EMP001''\<rparr>"

definition ready_state :: app_state where
  "ready_state =
     (handleCalculate sample_state)
       \<lparr>loggedInUser := Some default_rep, customerName := ''Ann Lee'',
        customerPhone := '' 876-555-0100 ''\<rparr>"

definition earlier_order :: order where
  "earlier_order =
     \<lparr>orderId = ''ORD-LQ2K9X7A-K3X9Q'',
      ticketNumber = ''TRU-ABCD-EFGH'',
      salesRep = ''Default Rep'',
      employeeId = ''EMP001'',
      customer =
        \<lparr>customer_rec.name = ''Bea Roy'', phone = ''876-555-0101'', email = [], address = [],
         notes_customer = []\<rparr>,
      tile = ''Marble'',
      wallTile = ''Marble'',
      tileDimensions = \<lparr>length_dim = ''0.3'', width_dim = ''0.3'', unit_dim = ''m''\<rparr>,
      tilePrice = ''100'',
      roomDimensions = \<lparr>length_dim = ''4'', width_dim = ''5'', unit_dim = ''m''\<rparr>,
      tilesNeeded = Fin 223,
      totalCost = Fin 22300,
      thinset = \<lparr>bags = Fin 5, bagPrice = Fin 1500, cost = Fin 7500\<rparr>,
      delivery =
        \<lparr>method_delivery = ''pickup'', isNewParish = False, miles = Fin 0, cost = Fin 0,
         store = hd STORES,
         auto = \<lparr>totalMilesEstimate = Fin 0, detectedParish = [], roadFactor = Fin 1.25\<rparr>\<rparr>,
      grandTotal = Fin 29800,
      createdAt = ''2024-01-01T00:00:00.000Z''\<rparr>"

definition ledger_state :: app_state where
  "ledger_state =
     ready_state\<lparr>orders := [earlier_order], localStorage_orders := Some [earlier_order]\<rparr>"

definition sample_env :: env where
  "sample_env =
     \<lparr>dateNow36 = ''lq2kb000'',
      dateISO = ''2024-01-01T00:10:00.000Z'',
      random36 = ''0.k3x9q2'' ## ''0.abcd12'' ## ''0.efgh34'' ## sconst ''0.zzzz99''\<rparr>"

section \<open>Properties of the delivery cost\<close>

lemmas parse_eval =
  parseFloat_def is_ws_def is_digit_def digit_val_def digits_val_def pow10_def starts_with_def

text \<open>
  Claim C2, as amended. For an in-parish delivery (method \<^verbatim>\<open>"delivery"\<close>, new-parish flag
  off) whose miles field parses to a positive number \<open>m\<close>, the cost is the flat fee 1500
  up to 5 miles and \<open>1500 + (m - 5) * 250\<close> beyond. The claim as stated covers every
  mileage of at most 5; the guard of the code returns 0 for a mileage of zero or below.
\<close>

theorem computeDeliveryCost_in_parish:
  assumes "parseFloat milesInput = Fin m" and "0 < m"
  shows "computeDeliveryCost ''delivery'' milesInput False =
           (if m \<le> 5 then Fin 1500 else Fin (1500 + (m - 5) * 250))"
  using assms by (simp add: computeDeliveryCost_def jsub_def)

text \<open>At 8 miles the cost is 2250, at 5 miles 1500.\<close>

theorem computeDeliveryCost_in_parish_witness:
  "parseFloat ''8'' = Fin 8 \<and> (0::real) < 8 \<and>
   computeDeliveryCost ''delivery'' ''8'' False = Fin 2250 \<and>
   parseFloat ''5'' = Fin 5 \<and> (0::real) < 5 \<and>
   computeDeliveryCost ''delivery'' ''5'' False = Fin 1500"
proof -
  have p8: "parseFloat ''8'' = Fin 8" and p5: "parseFloat ''5'' = Fin 5"
    by (simp_all add: parse_eval)
  have "computeDeliveryCost ''delivery'' ''8'' False = Fin 2250"
    using computeDeliveryCost_in_parish [OF p8] by simp
  moreover have "computeDeliveryCost ''delivery'' ''5'' False = Fin 1500"
    using computeDeliveryCost_in_parish [OF p5] by simp
  ultimately show ?thesis using p8 p5 by simp
qed

text \<open>Zero miles is a mileage of at most 5, and its in-parish cost is 0, not 1500.\<close>

theorem computeDeliveryCost_in_parish_zero_miles:
  "parseFloat ''0'' = Fin 0 \<and> (0::real) \<le> 5 \<and>
   computeDeliveryCost ''delivery'' ''0'' False = Fin 0 \<and>
   computeDeliveryCost ''delivery'' ''0'' False \<noteq> Fin 1500"
  by (simp add: computeDeliveryCost_def parse_eval)

text \<open>
  Claim C3. For a cross-parish delivery (method \<^verbatim>\<open>"delivery"\<close>, new-parish flag on) with
  \<open>m \<ge> 0\<close> miles inside the new parish, the cost is \<open>3500 + m * 450\<close>: the per-mile rate
  applies to every mile. Two miles cost 4400. For pickup the cost is 0, whatever the
  other fields hold.
\<close>

theorem computeDeliveryCost_new_parish:
  "(parseFloat milesInput = Fin m \<and> 0 \<le> m \<longrightarrow>
      computeDeliveryCost ''delivery'' milesInput True = Fin (3500 + m * 450)) \<and>
   computeDeliveryCost ''delivery'' ''2'' True = Fin 4400 \<and>
   computeDeliveryCost ''pickup'' milesInput newParish = Fin 0"
  by (simp add: computeDeliveryCost_def parse_eval)

theorem computeDeliveryCost_new_parish_witness:
  "parseFloat ''2.5'' = Fin 2.5 \<and> (0::real) \<le> 2.5 \<and>
   computeDeliveryCost ''delivery'' ''2.5'' True = Fin 4625"
proof -
  have p: "parseFloat ''2.5'' = Fin 2.5"
    by (simp add: parse_eval)
  have "computeDeliveryCost ''delivery'' ''2.5'' True = Fin (3500 + 2.5 * 450)"
    using computeDeliveryCost_new_parish [of "''2.5''" "2.5"] p by simp
  then show ?thesis using p by simp
qed

text \<open>
  Claim C10. For a cross-parish delivery whose miles field is missing or not numeric
  (it parses to \<open>NaN\<close>) or negative, the cost is exactly the base fee 3500: the mileage
  counts as 0. The function has no failing branch; it returns a number on every input.
\<close>

theorem computeDeliveryCost_new_parish_invalid_miles:
  assumes "parseFloat milesInput = NaN \<or> parseFloat milesInput = NInf \<or>
           (\<exists>m. parseFloat milesInput = Fin m \<and> m < 0)"
  shows "computeDeliveryCost ''delivery'' milesInput True = Fin 3500"
  using assms by (auto simp add: computeDeliveryCost_def)

theorem computeDeliveryCost_new_parish_invalid_miles_witness:
  "parseFloat [] = NaN \<and> computeDeliveryCost ''delivery'' [] True = Fin 3500 \<and>
   parseFloat ''abc'' = NaN \<and> computeDeliveryCost ''delivery'' ''abc'' True = Fin 3500 \<and>
   parseFloat ''-4'' = Fin (- 4) \<and> computeDeliveryCost ''delivery'' ''-4'' True = Fin 3500 \<and>
   parseFloat ''-Infinity'' = NInf \<and> computeDeliveryCost ''delivery'' ''-Infinity'' True = Fin 3500"
proof -
  have a: "parseFloat [] = NaN" and b: "parseFloat ''abc'' = NaN"
    and c: "parseFloat ''-4'' = Fin (- 4)" and d: "parseFloat ''-Infinity'' = NInf"
    by (simp_all add: parse_eval)
  have "computeDeliveryCost ''delivery'' [] True = Fin 3500"
    using computeDeliveryCost_new_parish_invalid_miles [of "[]"] a by simp
  moreover have "computeDeliveryCost ''delivery'' ''abc'' True = Fin 3500"
    using computeDeliveryCost_new_parish_invalid_miles [of "''abc''"] b by simp
  moreover have "computeDeliveryCost ''delivery'' ''-4'' True = Fin 3500"
    using computeDeliveryCost_new_parish_invalid_miles [of "''-4''"] c by simp
  moreover have "computeDeliveryCost ''delivery'' ''-Infinity'' True = Fin 3500"
    using computeDeliveryCost_new_parish_invalid_miles [of "''-Infinity''"] d by simp
  ultimately show ?thesis using a b c d by simp
qed

section \<open>Properties of the calculator\<close>

text \<open>Ten feet are 3.048 meters.\<close>

lemma convertToMeters_feet: "convertToMeters ''10'' ''ft'' = Fin 3.048"
  by (simp add: convertToMeters_def parse_eval)

lemma convertToMeters_valid:
  assumes "parseFloat v = Fin x" and "0 < x"
  shows "convertToMeters v u = Fin (x * meters_per_unit u)"
  using assms by (simp add: convertToMeters_def meters_per_unit_def)

lemma convertToMeters_invalid:
  assumes "parseFloat v = NaN \<or> parseFloat v = NInf \<or> (\<exists>x. parseFloat v = Fin x \<and> x \<le> 0)"
  shows "convertToMeters v u = Fin 0"
  using assms by (auto simp add: convertToMeters_def)

lemma meters_per_unit_pos: "0 < meters_per_unit u"
  by (simp add: meters_per_unit_def)

lemma jmax_zero_ceil:
  assumes "0 \<le> x"
  shows "jmax (Fin 0) (ceil (Fin x)) = Fin (of_int \<lceil>x\<rceil>)"
proof (cases "x = 0")
  case True
  then show ?thesis by (simp add: jmax_def)
next
  case False
  with assms have "0 < x" by simp
  then show ?thesis by (simp add: jmax_def)
qed

lemma handleCalculate_accepts:
  assumes tlen: "parseFloat (tileLength st) = Fin tlen" "0 < tlen"
    and twid: "parseFloat (tileWidth st) = Fin twid" "0 < twid"
    and rlen: "parseFloat (roomLength st) = Fin rlen" "0 < rlen"
    and rwid: "parseFloat (roomWidth st) = Fin rwid" "0 < rwid"
    and p: "parseFloat (app_state.tilePrice st) = Fin p" "p \<noteq> 0"
  defines "tileArea \<equiv> tlen * meters_per_unit (tileUnit st) * (twid * meters_per_unit (tileUnit st))"
    and "roomArea \<equiv> rlen * meters_per_unit (roomUnit st) * (rwid * meters_per_unit (roomUnit st))"
  shows "handleCalculate st =
     st\<lparr>result := Some
          \<lparr>calc_result.tilesNeeded = Fin (of_int \<lceil>roomArea / tileArea\<rceil>),
           totalCost = Fin (of_int \<lceil>roomArea / tileArea\<rceil> * p),
           roomAreaM2 = Fin roomArea,
           roomAreaSqFt = Fin (roomArea * 10.7639),
           thinsetBags = Fin (of_int \<lceil>roomArea * 10.7639 / 50\<rceil>),
           thinsetBagCoverageSqFt = Fin 50,
           thinsetBagPrice = Fin 1500,
           thinsetCost = Fin (of_int \<lceil>roomArea * 10.7639 / 50\<rceil> * 1500),
           delivery =
             \<lparr>method_delivery = deliveryMethod st,
              isNewParish = app_state.isNewParish st,
              miles = (let m = parseFloat (deliveryMiles st) in if truthy m then m else Fin 0),
              cost = computeDeliveryCost (deliveryMethod st) (deliveryMiles st) (app_state.isNewParish st),
              store = selectedStore st,
              auto =
                \<lparr>totalMilesEstimate =
                   (if truthy (autoTotalMiles st) then autoTotalMiles st else Fin 0),
                 detectedParish = app_state.detectedParish st,
                 roadFactor = app_state.roadFactor st\<rparr>\<rparr>,
           grandTotal =
             jadd (Fin (of_int \<lceil>roomArea / tileArea\<rceil> * p
                        + of_int \<lceil>roomArea * 10.7639 / 50\<rceil> * 1500))
                  (computeDeliveryCost (deliveryMethod st) (deliveryMiles st) (app_state.isNewParish st))\<rparr>\<rparr>"
proof -
  let ?ft = "meters_per_unit (tileUnit st)" and ?fr = "meters_per_unit (roomUnit st)"
  have ta: "0 < tileArea" and ra: "0 < roomArea"
    using tlen twid rlen rwid by (simp_all add: tileArea_def roomArea_def meters_per_unit_pos)
  have c: "convertToMeters (tileLength st) (tileUnit st) = Fin (tlen * ?ft)"
      "convertToMeters (tileWidth st) (tileUnit st) = Fin (twid * ?ft)"
      "convertToMeters (roomLength st) (roomUnit st) = Fin (rlen * ?fr)"
      "convertToMeters (roomWidth st) (roomUnit st) = Fin (rwid * ?fr)"
    using tlen twid rlen rwid by (simp_all add: convertToMeters_valid)
  have t: "truthy (Fin (tlen * ?ft)) = True" "truthy (Fin (twid * ?ft)) = True"
      "truthy (Fin (rlen * ?fr)) = True" "truthy (Fin (rwid * ?fr)) = True"
      "truthy (Fin p) = True"
    using tlen twid rlen rwid p meters_per_unit_pos [of "tileUnit st"]
      meters_per_unit_pos [of "roomUnit st"]
    by simp_all
  have m: "jmul (Fin (tlen * ?ft)) (Fin (twid * ?ft)) = Fin tileArea"
      "jmul (Fin (rlen * ?fr)) (Fin (rwid * ?fr)) = Fin roomArea"
    by (simp_all add: tileArea_def roomArea_def)
  have d: "ceil (jdiv (Fin roomArea) (Fin tileArea)) = Fin (of_int \<lceil>roomArea / tileArea\<rceil>)"
    using ta by simp
  have tc: "jmul (Fin (of_int \<lceil>roomArea / tileArea\<rceil>)) (Fin p) = Fin (of_int \<lceil>roomArea / tileArea\<rceil> * p)"
    by simp
  have sq: "jmul (Fin roomArea) (Fin 10.7639) = Fin (roomArea * 10.7639)"
    by simp
  have d2: "jdiv (Fin (roomArea * 10.7639)) (Fin 50) = Fin (roomArea * 10.7639 / 50)"
    by simp
  have bg: "jmax (Fin 0) (ceil (Fin (roomArea * 10.7639 / 50)))
                  = Fin (of_int \<lceil>roomArea * 10.7639 / 50\<rceil>)"
    using ra by (intro jmax_zero_ceil) simp
  have bc: "jmul (Fin (of_int \<lceil>roomArea * 10.7639 / 50\<rceil>)) (Fin 1500)
              = Fin (of_int \<lceil>roomArea * 10.7639 / 50\<rceil> * 1500)"
    by simp
  have gt: "jadd (Fin (of_int \<lceil>roomArea / tileArea\<rceil> * p))
                 (Fin (of_int \<lceil>roomArea * 10.7639 / 50\<rceil> * 1500))
             = Fin (of_int \<lceil>roomArea / tileArea\<rceil> * p + of_int \<lceil>roomArea * 10.7639 / 50\<rceil> * 1500)"
    by simp
  show ?thesis
    unfolding handleCalculate_def Let_def c p t m d tc sq d2 bg bc gt
    by simp
qed


lemma handleCalculate_rejects:
  assumes "convertToMeters (tileLength st) (tileUnit st) = Fin 0 \<or>
           convertToMeters (tileWidth st) (tileUnit st) = Fin 0 \<or>
           convertToMeters (roomLength st) (roomUnit st) = Fin 0 \<or>
           convertToMeters (roomWidth st) (roomUnit st) = Fin 0 \<or>
           parseFloat (app_state.tilePrice st) = NaN \<or>
           parseFloat (app_state.tilePrice st) = Fin 0"
  shows "handleCalculate st = alert (Message ''Please enter all values correctly'') st"
  using assms by (auto simp add: handleCalculate_def Let_def)

lemma handleCalculate_rejects_fields:
  assumes "v \<in> {tileLength st, tileWidth st, roomLength st, roomWidth st}"
    and "parseFloat v = NaN \<or> parseFloat v = NInf \<or> (\<exists>x. parseFloat v = Fin x \<and> x \<le> 0)"
  shows "handleCalculate st = alert (Message ''Please enter all values correctly'') st"
    and "result (handleCalculate st) = result st"
proof -
  from assms(2) have "\<And>u. convertToMeters v u = Fin 0"
    by (rule convertToMeters_invalid)
  with assms(1) show "handleCalculate st = alert (Message ''Please enter all values correctly'') st"
    by (intro handleCalculate_rejects) auto
  then show "result (handleCalculate st) = result st"
    by (simp add: alert_def)
qed

lemma handleCalculate_rejects_price:
  assumes "parseFloat (app_state.tilePrice st) = NaN \<or> parseFloat (app_state.tilePrice st) = Fin 0"
  shows "handleCalculate st = alert (Message ''Please enter all values correctly'') st"
    and "result (handleCalculate st) = result st"
proof -
  from assms show "handleCalculate st = alert (Message ''Please enter all values correctly'') st"
    by (intro handleCalculate_rejects) auto
  then show "result (handleCalculate st) = result st"
    by (simp add: alert_def)
qed

lemma alert_frame:
  "result (alert a st) = result st \<and> orders (alert a st) = orders st \<and>
   localStorage_orders (alert a st) = localStorage_orders st \<and>
   alerts (alert a st) = alerts st @ [a]"
  by (simp add: alert_def)

lemma sample_state_fields:
  "parseFloat (tileLength sample_state) = Fin 0.3"
  "parseFloat (tileWidth sample_state) = Fin 0.3"
  "parseFloat (roomLength sample_state) = Fin 4"
  "parseFloat (roomWidth sample_state) = Fin 5"
  "parseFloat (app_state.tilePrice sample_state) = Fin 100"
  by (simp_all add: sample_state_def parse_eval)

lemma negative_price_state_fields:
  "parseFloat (tileLength negative_price_state) = Fin 0.3"
  "parseFloat (tileWidth negative_price_state) = Fin 0.3"
  "parseFloat (roomLength negative_price_state) = Fin 4"
  "parseFloat (roomWidth negative_price_state) = Fin 5"
  "parseFloat (app_state.tilePrice negative_price_state) = Fin (- 5)"
  by (simp_all add: negative_price_state_def sample_state_def parse_eval)



text \<open>
  Claim C4. For every valid calculator input, the number of thinset bags is the ceiling
  of the room area in square feet (square meters times 10.7639) over 50, a bag costs
  1500, and the grand total is tile cost plus thinset cost plus delivery cost, the last
  being what \<open>computeDeliveryCost\<close> gives for the delivery fields.
\<close>

theorem handleCalculate_thinset_and_total:
  assumes "parseFloat (tileLength st) = Fin tlen" "0 < tlen"
    and "parseFloat (tileWidth st) = Fin twid" "0 < twid"
    and "parseFloat (roomLength st) = Fin rlen" "0 < rlen"
    and "parseFloat (roomWidth st) = Fin rwid" "0 < rwid"
    and "parseFloat (app_state.tilePrice st) = Fin p" "0 < p"
  shows "\<exists>r. result (handleCalculate st) = Some r \<and>
           roomAreaSqFt r =
             Fin (rlen * meters_per_unit (roomUnit st) * (rwid * meters_per_unit (roomUnit st)) * 10.7639) \<and>
           thinsetBags r =
             Fin (of_int \<lceil>rlen * meters_per_unit (roomUnit st) * (rwid * meters_per_unit (roomUnit st))
                            * 10.7639 / 50\<rceil>) \<and>
           thinsetBagPrice r = Fin 1500 \<and>
           thinsetCost r = jmul (thinsetBags r) (Fin 1500) \<and>
           delivery_rec.cost (calc_result.delivery r) =
             computeDeliveryCost (deliveryMethod st) (deliveryMiles st) (app_state.isNewParish st) \<and>
           calc_result.grandTotal r =
             jadd (jadd (calc_result.totalCost r) (thinsetCost r))
                  (delivery_rec.cost (calc_result.delivery r))"
proof -
  from assms(10) have "p \<noteq> 0" by simp
  from handleCalculate_accepts [OF assms(1-9) this] show ?thesis by simp
qed

text \<open>A room of 20 square meters is 215.278 square feet and takes 5 bags.\<close>

theorem handleCalculate_thinset_and_total_witness:
  "parseFloat (tileLength sample_state) = Fin 0.3 \<and>
   parseFloat (tileWidth sample_state) = Fin 0.3 \<and>
   parseFloat (roomLength sample_state) = Fin 4 \<and>
   parseFloat (roomWidth sample_state) = Fin 5 \<and>
   parseFloat (app_state.tilePrice sample_state) = Fin 100 \<and>
   (\<exists>r. result (handleCalculate sample_state) = Some r \<and>
        roomAreaSqFt r = Fin 215.278 \<and> thinsetBags r = Fin 5 \<and> thinsetBagPrice r = Fin 1500)"
proof -
  have u: "meters_per_unit (roomUnit sample_state) = 1"
    by (simp add: sample_state_def meters_per_unit_def)
  have "\<exists>r. result (handleCalculate sample_state) = Some r \<and>
        roomAreaSqFt r = Fin 215.278 \<and> thinsetBags r = Fin 5 \<and> thinsetBagPrice r = Fin 1500"
    using handleCalculate_thinset_and_total [OF sample_state_fields(1) _ sample_state_fields(2) _
        sample_state_fields(3) _ sample_state_fields(4) _ sample_state_fields(5)]
    by (auto simp add: u)
  then show ?thesis using sample_state_fields by simp
qed

text \<open>
  Claim C5 says that \<open>handleCalculate\<close> rejects the input, leaving the stored result as it
  was, whenever a required numeric field is missing, not numeric or not positive. The
  four dimensions and a price that is missing, not numeric or zero are rejected
  (\<open>handleCalculate_rejects_fields\<close>, \<open>handleCalculate_rejects_price\<close>). A negative price is
  not: with
  valid dimensions and a price \<open>p < 0\<close> no alert is raised and a result with the negative
  tile cost \<open>tilesNeeded * p\<close> is stored.
\<close>

theorem handleCalculate_negative_price:
  assumes "parseFloat (tileLength st) = Fin tlen" "0 < tlen"
    and "parseFloat (tileWidth st) = Fin twid" "0 < twid"
    and "parseFloat (roomLength st) = Fin rlen" "0 < rlen"
    and "parseFloat (roomWidth st) = Fin rwid" "0 < rwid"
    and "parseFloat (app_state.tilePrice st) = Fin p" "p < 0"
  shows "alerts (handleCalculate st) = alerts st \<and>
         (\<exists>r. result (handleCalculate st) = Some r \<and>
              calc_result.totalCost r =
                Fin (of_int
                  \<lceil>(rlen * meters_per_unit (roomUnit st) * (rwid * meters_per_unit (roomUnit st))) /
                   (tlen * meters_per_unit (tileUnit st) * (twid * meters_per_unit (tileUnit st)))\<rceil> * p))"
proof -
  from assms(10) have "p \<noteq> 0" by simp
  from handleCalculate_accepts [OF assms(1-9) this] show ?thesis by simp
qed

text \<open>With a price of \<^verbatim>\<open>-5\<close> for the 4 m by 5 m room: no alert, and a tile cost of -1115.\<close>

theorem handleCalculate_negative_price_witness:
  "parseFloat (app_state.tilePrice negative_price_state) = Fin (- 5) \<and>
   result negative_price_state = None \<and>
   alerts (handleCalculate negative_price_state) = alerts negative_price_state \<and>
   (\<exists>r. result (handleCalculate negative_price_state) = Some r \<and>
        calc_result.totalCost r = Fin (- 1115))"
proof -
  have u: "meters_per_unit (roomUnit negative_price_state) = 1"
    "meters_per_unit (tileUnit negative_price_state) = 1"
    by (simp_all add: negative_price_state_def sample_state_def meters_per_unit_def)
  have n: "result negative_price_state = None"
    by (simp add: negative_price_state_def sample_state_def)
  have "alerts (handleCalculate negative_price_state) = alerts negative_price_state \<and>
   (\<exists>r. result (handleCalculate negative_price_state) = Some r \<and>
        calc_result.totalCost r = Fin (- 1115))"
    using handleCalculate_negative_price [OF negative_price_state_fields(1) _
        negative_price_state_fields(2) _ negative_price_state_fields(3) _
        negative_price_state_fields(4) _ negative_price_state_fields(5)]
    by (auto simp add: u)
  then show ?thesis using negative_price_state_fields(5) n by simp
qed

section \<open>Properties of the auto-distance\<close>


lemma String_num_tenths: "String_num (Fin (real_of_int n / 10)) = String_tenths n"
  by simp





section \<open>Properties of parish matching\<close>

text \<open>Matching is a lookup of the normalised input in the table of normalised parish
  names: the first parish whose normalised name equals the input or occurs in it.\<close>

lemma normalized_parishes:
  "map (\<lambda>p. (p, normalizeParish p)) JAMAICA_PARISHES = parish_table"
  by code_simp

lemma find_map_pair:
  "find (\<lambda>p. Q (f p)) xs = map_option fst (find (\<lambda>pn. Q (snd pn)) (map (\<lambda>p. (p, f p)) xs))"
  by (induction xs) simp_all

lemma matchParishName_table:
  assumes "a \<noteq> []"
  shows "matchParishName (Some a) =
           map_option fst
             (find (\<lambda>pn. snd pn = normalizeParish a \<or> includes_str (normalizeParish a) (snd pn))
                parish_table)"
  using assms
  by (simp add: matchParishName_def Let_def
        find_map_pair [of "\<lambda>n. n = normalizeParish a \<or> includes_str (normalizeParish a) n" normalizeParish]
        normalized_parishes)

lemma parish_table_lookup:
  "list_all (\<lambda>(p, n). map_option fst
                (find (\<lambda>pn. snd pn = n \<or> includes_str n (snd pn)) parish_table) = Some p)
     parish_table"
  by (simp add: parish_table_def starts_with_def)

text \<open>No two parishes share a normal form.\<close>

lemma parish_table_distinct: "distinct (map snd parish_table)"
  by (simp add: parish_table_def)

text \<open>An input whose normal form is the normal form of a parish yields that parish.\<close>

lemma matchParishName_normalized:
  assumes "a \<noteq> []" and "(p, normalizeParish a) \<in> set parish_table"
  shows "matchParishName (Some a) = Some p"
  using parish_table_lookup assms(2)
  unfolding matchParishName_table [OF assms(1)] list_all_iff
  by fastforce

lemma matchParishName_null: "matchParishName None = None \<and> matchParishName (Some []) = None"
  by (simp add: matchParishName_def)

lemma normalizeParish_st_dot: "normalizeParish ''St. Ann'' = ''saint  ann''"
  by code_simp

text \<open>
  Claim C8 says that \<open>matchParishName\<close> returns the canonical parish name for every string
  naming one of the 14 parishes, also when "Saint" is abbreviated as "St.". The
  replacement of the leading \<^verbatim>\<open>st.\<close> consumes three characters and inserts \<^verbatim>\<open>Saint\<close>
  followed by a space; in \<^verbatim>\<open>St. Ann\<close> the space after the dot stays, the normal form has
  two spaces, and no parish matches.
\<close>

theorem matchParishName_st_dot:
  "normalizeParish ''St. Ann'' = ''saint  ann'' \<and> matchParishName (Some ''St. Ann'') = None"
  by (simp add: matchParishName_table normalizeParish_st_dot parish_table_def starts_with_def)

section \<open>Properties of the order ledger\<close>

lemma ticket_loop_fresh:
  assumes "ticket_loop existing rnd = Some y"
  shows "fst y \<notin> existing"
proof (rule ticket_loop.raw_induct [OF _ assms])
  fix f ex r z
  assume IH: "\<And>a b y. f a b = Some y \<Longrightarrow> fst y \<notin> a"
    and step: "(let ticket = make_ticket (shd r) (shd (stl r))
                in if ticket \<in> ex then f ex (stl (stl r)) else Some (ticket, stl (stl r))) = Some z"
  show "fst z \<notin> ex"
  proof (cases "make_ticket (shd r) (shd (stl r)) \<in> ex")
    case True
    with step have "f ex (stl (stl r)) = Some z" by (simp add: Let_def)
    then show ?thesis by (rule IH)
  next
    case False
    with step show ?thesis by (auto simp add: Let_def)
  qed
qed

lemma nth_ticket_0: "nth_ticket rnd 0 = make_ticket (shd rnd) (shd (stl rnd))"
  by (simp add: nth_ticket_def)

lemma nth_ticket_Suc: "nth_ticket rnd (Suc n) = nth_ticket (stl (stl rnd)) n"
  by (simp add: nth_ticket_def)

lemma ticket_loop_returns:
  "nth_ticket rnd n \<notin> existing \<Longrightarrow> \<exists>y. ticket_loop existing rnd = Some y"
proof (induction n arbitrary: rnd)
  case 0
  then show ?case
    by (subst ticket_loop.simps) (simp add: nth_ticket_0 Let_def)
next
  case (Suc n)
  then have "\<exists>y. ticket_loop existing (stl (stl rnd)) = Some y"
    by (simp add: nth_ticket_Suc)
  then show ?case
    by (subst ticket_loop.simps) (simp add: Let_def)
qed

lemma ticket_loop_is_tried:
  assumes "ticket_loop existing rnd = Some y"
  shows "\<exists>n. fst y = nth_ticket rnd n"
proof (rule ticket_loop.raw_induct [OF _ assms])
  fix f ex r z
  assume IH: "\<And>a b y. f a b = Some y \<Longrightarrow> \<exists>n. fst y = nth_ticket b n"
    and step: "(let ticket = make_ticket (shd r) (shd (stl r))
                in if ticket \<in> ex then f ex (stl (stl r)) else Some (ticket, stl (stl r))) = Some z"
  show "\<exists>n. fst z = nth_ticket r n"
  proof (cases "make_ticket (shd r) (shd (stl r)) \<in> ex")
    case True
    with step have "f ex (stl (stl r)) = Some z" by (simp add: Let_def)
    from IH [OF this] obtain n where "fst z = nth_ticket (stl (stl r)) n" ..
    then have "fst z = nth_ticket r (Suc n)" by (simp add: nth_ticket_Suc)
    then show ?thesis ..
  next
    case False
    with step have "fst z = nth_ticket r 0"
      by (auto simp add: Let_def nth_ticket_0)
    then show ?thesis ..
  qed
qed

lemma stored_tickets_ledger: "stored_tickets ledger_state = {''TRU-ABCD-EFGH''}"
  by (simp add: stored_tickets_def stored_orders_def ledger_state_def earlier_order_def)

lemma sample_tickets:
  "make_ticket ''0.abcd12'' ''0.efgh34'' = ''TRU-ABCD-EFGH''"
  "make_ticket ''0.zzzz99'' ''0.zzzz99'' = ''TRU-ZZZZ-ZZZZ''"
  by code_simp+

lemma sample_ticket_run:
  "ticket_loop {''TRU-ABCD-EFGH''} (''0.abcd12'' ## ''0.efgh34'' ## sconst ''0.zzzz99'') =
     Some (''TRU-ZZZZ-ZZZZ'', sconst ''0.zzzz99'')"
  apply (subst ticket_loop.simps)
  apply (simp add: sample_tickets Let_def)
  apply (subst ticket_loop.simps)
  apply (simp add: sample_tickets Let_def)
  done

text \<open>
  Claim C6. For every order ledger, the ticket number that \<open>generateTicketNumber\<close> returns
  is absent from the ticket numbers of the orders in the ledger, and it is one of the
  tickets the loop tried. Collisions are retried: as soon as one ticket in the sequence
  of tries is absent from the ledger, the function returns.
\<close>

theorem generateTicketNumber_fresh:
  "(generateTicketNumber st rnd = Some (ticket, rnd') \<longrightarrow>
      ticket \<notin> stored_tickets st \<and> (\<exists>n. ticket = nth_ticket rnd n)) \<and>
   ((\<exists>n. nth_ticket rnd n \<notin> stored_tickets st) \<longrightarrow>
      (\<exists>ticket rnd'. generateTicketNumber st rnd = Some (ticket, rnd')))"
proof (intro conjI impI)
  assume r: "generateTicketNumber st rnd = Some (ticket, rnd')"
  then have "ticket_loop (stored_tickets st) rnd = Some (ticket, rnd')"
    by (simp add: generateTicketNumber_def stored_tickets_def Let_def)
  from ticket_loop_fresh [OF this] ticket_loop_is_tried [OF this]
  show "ticket \<notin> stored_tickets st" and "\<exists>n. ticket = nth_ticket rnd n"
    by simp_all
next
  assume "\<exists>n. nth_ticket rnd n \<notin> stored_tickets st"
  then obtain n where "nth_ticket rnd n \<notin> stored_tickets st" ..
  from ticket_loop_returns [OF this]
  show "\<exists>ticket rnd'. generateTicketNumber st rnd = Some (ticket, rnd')"
    by (simp add: generateTicketNumber_def stored_tickets_def Let_def)
qed

text \<open>With \<^verbatim>\<open>TRU-ABCD-EFGH\<close> in the ledger and random values that first repeat it, the
  second try \<^verbatim>\<open>TRU-ZZZZ-ZZZZ\<close> is returned.\<close>

theorem generateTicketNumber_fresh_witness:
  "stored_tickets ledger_state = {''TRU-ABCD-EFGH''} \<and>
   nth_ticket (stl (random36 sample_env)) 1 \<notin> stored_tickets ledger_state \<and>
   (\<exists>ticket rnd'. generateTicketNumber ledger_state (stl (random36 sample_env)) = Some (ticket, rnd')) \<and>
   generateTicketNumber ledger_state (stl (random36 sample_env)) =
     Some (''TRU-ZZZZ-ZZZZ'', sconst ''0.zzzz99'') \<and>
   ''TRU-ZZZZ-ZZZZ'' \<notin> stored_tickets ledger_state"
proof -
  note inst = generateTicketNumber_fresh [of ledger_state "stl (random36 sample_env)"
      "''TRU-ZZZZ-ZZZZ''" "sconst ''0.zzzz99''"]
  have run: "generateTicketNumber ledger_state (stl (random36 sample_env)) =
     Some (''TRU-ZZZZ-ZZZZ'', sconst ''0.zzzz99'')"
    using sample_ticket_run stored_tickets_ledger
    by (simp add: generateTicketNumber_def stored_tickets_def sample_env_def Let_def)
  have f: "nth_ticket (stl (random36 sample_env)) 1 \<notin> stored_tickets ledger_state"
    by (simp add: nth_ticket_Suc nth_ticket_0 sample_env_def sample_tickets stored_tickets_ledger)
  then have "\<exists>n. nth_ticket (stl (random36 sample_env)) n \<notin> stored_tickets ledger_state" ..
  with inst
  have r: "\<exists>ticket rnd'. generateTicketNumber ledger_state (stl (random36 sample_env)) = Some (ticket, rnd')"
    by blast
  from inst run have "''TRU-ZZZZ-ZZZZ'' \<notin> stored_tickets ledger_state"
    by blast
  then show ?thesis using run f r stored_tickets_ledger by blast
qed

lemma handlePlaceOrder_rejected:
  assumes "\<not> can_place st"
  shows "\<exists>a. handlePlaceOrder st e = Some (alert a st, random36 e)"
  using assms
  by (auto simp add: handlePlaceOrder_def can_place_def split: option.splits)

lemma handlePlaceOrder_placed:
  assumes "can_place st" and "generateTicketNumber st (stl (random36 e)) = Some (ticket, rnd2)"
  shows "\<exists>order. ticketNumber order = ticket \<and>
           handlePlaceOrder st e =
             Some (alert (OrderCreated order)
                     (st\<lparr>orders := orders st @ [order],
                         localStorage_orders := Some (orders st @ [order]),
                         customerName := [], customerPhone := [], customerEmail := [],
                         customerAddress := [], customerNotes := []\<rparr>),
                   rnd2)"
proof -
  from assms(1) obtain res rep where r: "result st = Some res" "loggedInUser st = Some rep"
    by (auto simp add: can_place_def)
  let ?order = "new_order st res rep (fst (generateOrderId (dateNow36 e) (random36 e))) ticket (dateISO e)"
  have "ticketNumber ?order = ticket"
    by (simp add: new_order_def)
  moreover have "handlePlaceOrder st e =
             Some (alert (OrderCreated ?order)
                     (st\<lparr>orders := orders st @ [?order],
                         localStorage_orders := Some (orders st @ [?order]),
                         customerName := [], customerPhone := [], customerEmail := [],
                         customerAddress := [], customerNotes := []\<rparr>),
                   rnd2)"
    using assms r
    by (auto simp add: handlePlaceOrder_def can_place_def generateOrderId_def Let_def)
  ultimately show ?thesis by blast
qed

lemma handlePlaceOrder_hangs:
  assumes "can_place st" and "generateTicketNumber st (stl (random36 e)) = None"
  shows "handlePlaceOrder st e = None"
  using assms
  by (auto simp add: handlePlaceOrder_def can_place_def generateOrderId_def Let_def)




lemma handlePlaceOrder_cases:
  assumes "handlePlaceOrder st e = Some (st', rnd')"
  shows "(\<not> can_place st \<and> orders st' = orders st \<and>
            localStorage_orders st' = localStorage_orders st) \<or>
         (can_place st \<and>
            (\<exists>order. orders st' = orders st @ [order] \<and>
                     localStorage_orders st' = Some (orders st @ [order]) \<and>
                     ticketNumber order \<notin> stored_tickets st))"
proof (cases "can_place st")
  case False
  from handlePlaceOrder_rejected [OF False, of e] assms
  show ?thesis using False by (auto simp add: alert_def)
next
  case True
  show ?thesis
  proof (cases "generateTicketNumber st (stl (random36 e))")
    case None
    from handlePlaceOrder_hangs [OF True None] assms show ?thesis by simp
  next
    case (Some y)
    obtain ticket rnd2 where y: "y = (ticket, rnd2)" by (cases y)
    from Some y have g: "generateTicketNumber st (stl (random36 e)) = Some (ticket, rnd2)"
      by simp
    then have "ticket_loop (stored_tickets st) (stl (random36 e)) = Some (ticket, rnd2)"
      by (simp add: generateTicketNumber_def stored_tickets_def Let_def)
    from ticket_loop_fresh [OF this] have f: "ticket \<notin> stored_tickets st" by simp
    from handlePlaceOrder_placed [OF True g] assms f True
    show ?thesis by (auto simp add: alert_def)
  qed
qed

text \<open>A session whose order list is the stored one keeps it so, and keeps the ticket
  numbers of its orders pairwise distinct.\<close>

lemma handlePlaceOrder_in_sync:
  assumes "handlePlaceOrder st e = Some (st', rnd')" and "stored_orders st = orders st"
  shows "stored_orders st' = orders st'"
  using handlePlaceOrder_cases [OF assms(1)] assms(2)
  by (auto simp add: stored_orders_def)

lemma handlePlaceOrder_distinct_tickets:
  assumes "handlePlaceOrder st e = Some (st', rnd')" and "stored_orders st = orders st"
    and "distinct (map ticketNumber (orders st))"
  shows "distinct (map ticketNumber (orders st'))"
  using handlePlaceOrder_cases [OF assms(1)] assms(2,3)
  by (auto simp add: stored_tickets_def)





end
